theory Spec2Isabelle
  imports Main "HOL-Library.Word"
begin

unbundle bit_operations_syntax

section \<open>Python values used by the payout application\<close>

text \<open>
  The application is Python. A Python \<open>str\<close> is modelled as a \<open>string\<close>: a list of
  characters whose code points are below 256. Exceptions are values of \<open>pyerr\<close>, and a
  function that may raise returns \<open>pyerr + 'a\<close> with \<open>Inl\<close> for the exception.

  Each exception carries its message. \<open>HTTPError code msg body\<close> is the exception of
  \<open>urllib\<close> for a response whose status is not 2xx; \<open>body\<close> is what
  \<open>read().decode("utf-8")\<close> gives on it: the text, or on the left the message of the
  exception that reading or decoding raises. \<open>RuntimeErrorFrom msg cause\<close> is a
  \<open>RuntimeError\<close> raised \<open>from\<close> another exception.
\<close>

datatype pyerr =
    ValueError string
  | TypeError string
  | AttributeError string
  | URLError string
  | HTTPError int string "string + string"
  | RuntimeError string
  | RuntimeErrorFrom string pyerr

subsection \<open>String methods\<close>

text \<open>\<open>str.isspace\<close> for one character with a code point below 256.\<close>

definition is_space :: "char \<Rightarrow> bool" where
  "is_space c =
     (let n = of_char c :: nat
      in (9 \<le> n \<and> n \<le> 13) \<or> (28 \<le> n \<and> n \<le> 32) \<or> n = 133 \<or> n = 160)"

text \<open>\<open>s.strip()\<close>: leading and trailing whitespace removed.\<close>

definition str_strip :: "string \<Rightarrow> string" where
  "str_strip s = rev (dropWhile is_space (rev (dropWhile is_space s)))"

text \<open>\<open>s.replace(old, new)\<close> where \<open>old\<close> and \<open>new\<close> are single characters.\<close>

definition str_replace :: "char \<Rightarrow> char \<Rightarrow> string \<Rightarrow> string" where
  "str_replace old new s = map (\<lambda>c. if c = old then new else c) s"

text \<open>\<open>s.split(sep)\<close> where \<open>sep\<close> is a single character; the empty string gives \<open>['']\<close>.\<close>

fun str_split :: "char \<Rightarrow> string \<Rightarrow> string list" where
  "str_split sep [] = [[]]"
| "str_split sep (c # cs) =
     (if c = sep then [] # str_split sep cs
      else (case str_split sep cs of
              [] \<Rightarrow> [[c]]
            | p # ps \<Rightarrow> (c # p) # ps))"

text \<open>\<open>needle in s\<close> for two strings.\<close>

fun str_contains :: "string \<Rightarrow> string \<Rightarrow> bool" where
  "str_contains needle [] = (needle = [])"
| "str_contains needle (c # cs) =
     (take (length needle) (c # cs) = needle \<or> str_contains needle cs)"

text \<open>\<open>s.rsplit(sep, 1)[-1]\<close> for a single character \<open>sep\<close>: what follows the last
  separator, or the whole string when there is none.\<close>

definition rsplit_last :: "char \<Rightarrow> string \<Rightarrow> string" where
  "rsplit_last sep s = rev (takeWhile (\<lambda>c. c \<noteq> sep) (rev s))"

subsection \<open>Decimal numerals\<close>

definition is_digit :: "char \<Rightarrow> bool" where
  "is_digit c = (let n = of_char c :: int in 48 \<le> n \<and> n \<le> 57)"

definition digit_val :: "char \<Rightarrow> int" where
  "digit_val c = of_char c - 48"

definition digit_char :: "int \<Rightarrow> char" where
  "digit_char d = char_of (48 + d)"

text \<open>The value of a string of decimal digits, most significant digit first.\<close>

definition int_of_digits :: "string \<Rightarrow> int" where
  "int_of_digits ds = foldl (\<lambda>acc c. 10 * acc + digit_val c) 0 ds"

text \<open>The decimal digits of an integer that is not negative.\<close>

function dec_digits :: "int \<Rightarrow> string" where
  "dec_digits n =
     (if n < 10 then [digit_char n] else dec_digits (n div 10) @ [digit_char (n mod 10)])"
  by pat_completeness auto
termination
  by (relation "measure nat") auto

declare dec_digits.simps [simp del]

text \<open>\<open>str(i)\<close> for an integer.\<close>

definition str_int :: "int \<Rightarrow> string" where
  "str_int i = (if i < 0 then CHR ''-'' # dec_digits (- i) else dec_digits i)"

text \<open>Zero padding on the left to a minimum width, as the format \<open>0wd\<close> does.\<close>

definition zero_pad :: "nat \<Rightarrow> string \<Rightarrow> string" where
  "zero_pad w s = replicate (w - length s) CHR ''0'' @ s"

section \<open>Floating-point numbers\<close>

text \<open>
  A Python \<open>float\<close> is an IEEE 754 binary64 number. Its value is kept exactly: a finite
  float \<open>Fin neg m e\<close> is the number \<open>m * 2 ^ e\<close> with the sign \<open>neg\<close> (so that \<open>-0.0\<close> is
  \<open>Fin True 0 0\<close>), and the two infinities and the not-a-number value are separate.
  Conversion from a decimal numeral and formatting are both correctly rounded
  (to nearest, ties to even), as CPython's are.
\<close>

datatype pyfloat = Fin bool int int | Infinity bool | NaN

text \<open>The floor of the binary logarithm of a positive integer.\<close>

function ilog2 :: "int \<Rightarrow> int" where
  "ilog2 n = (if n < 2 then 0 else 1 + ilog2 (n div 2))"
  by pat_completeness auto
termination
  by (relation "measure nat") auto

declare ilog2.simps [simp del]

text \<open>The quotient \<open>num / den\<close> of two positive integers rounded to the nearest integer,
  ties to even.\<close>

definition round_half_even :: "int \<Rightarrow> int \<Rightarrow> int" where
  "round_half_even num den =
     (let q = num div den; r = num mod den
      in if den < 2 * r \<or> (2 * r = den \<and> odd q) then q + 1 else q)"

text \<open>
  The binary64 number nearest to \<open>m * 10 ^ k\<close>, with sign \<open>neg\<close>. \<open>fl\<close> is the floor of
  the binary logarithm of the value; the result has 53 significant bits, fewer below the
  smallest normal number (the exponent stops at \<open>-1074\<close>), and a value that rounds to
  \<open>2 ^ 1024\<close> or more is an infinity.
\<close>

definition to_double :: "bool \<Rightarrow> int \<Rightarrow> int \<Rightarrow> pyfloat" where
  "to_double neg m k =
     (if m = 0 then Fin neg 0 0
      else
        let n = (if 0 \<le> k then m * 10 ^ nat k else m);
            d = (if 0 \<le> k then 1 else 10 ^ nat (- k));
            b = ilog2 n - ilog2 d;
            fl = (if (if 0 \<le> b then d * 2 ^ nat b \<le> n else d \<le> n * 2 ^ nat (- b))
                  then b else b - 1);
            e = max (fl - 52) (- 1074);
            q = (if 0 \<le> e then round_half_even n (d * 2 ^ nat e)
                 else round_half_even (n * 2 ^ nat (- e)) d)
        in if 971 < e \<or> (e = 971 \<and> 2 ^ 53 \<le> q) then Infinity neg else Fin neg q e)"

subsection \<open>The constructor \<open>float(s)\<close>\<close>

text \<open>
  Underscores in a numeral: each one must stand between two digits. The function returns
  the string without its underscores, or \<open>None\<close> where CPython rejects the string.
  \<open>prev\<close> is the previous character.
\<close>

fun strip_underscores :: "char option \<Rightarrow> string \<Rightarrow> string option" where
  "strip_underscores prev [] = (if prev = Some CHR ''_'' then None else Some [])"
| "strip_underscores prev (c # cs) =
     (if c = CHR ''_'' then
        (if (case prev of None \<Rightarrow> False | Some p \<Rightarrow> is_digit p)
         then strip_underscores (Some c) cs else None)
      else if prev = Some CHR ''_'' \<and> \<not> is_digit c then None
      else map_option ((#) c) (strip_underscores (Some c) cs))"

definition to_lower :: "char \<Rightarrow> char" where
  "to_lower c = (let n = of_char c :: nat in if 65 \<le> n \<and> n \<le> 90 then char_of (n + 32) else c)"

text \<open>An optional sign: whether it is a minus, and the rest of the string.\<close>

fun take_sign :: "string \<Rightarrow> bool \<times> string" where
  "take_sign [] = (False, [])"
| "take_sign (c # cs) =
     (if c = CHR ''-'' then (True, cs)
      else if c = CHR ''+'' then (False, cs)
      else (False, c # cs))"

text \<open>\<open>inf\<close>, \<open>infinity\<close> and \<open>nan\<close>, in any letter case, with an optional sign.\<close>

definition parse_inf_or_nan :: "string \<Rightarrow> pyfloat option" where
  "parse_inf_or_nan s =
     (let (neg, r) = take_sign s; w = map to_lower r
      in if w = ''inf'' \<or> w = ''infinity'' then Some (Infinity neg)
         else if w = ''nan'' then Some NaN
         else None)"

text \<open>
  The exponent part of a numeral: empty, or \<open>e\<close> or \<open>E\<close>, an optional sign and at least
  one digit, up to the end of the string.
\<close>

definition parse_exponent :: "string \<Rightarrow> int option" where
  "parse_exponent s =
     (case s of
        [] \<Rightarrow> Some 0
      | c # cs \<Rightarrow>
          if c = CHR ''e'' \<or> c = CHR ''E'' then
            (let (neg, ds) = take_sign cs
             in if ds \<noteq> [] \<and> list_all is_digit ds
                then Some (if neg then - int_of_digits ds else int_of_digits ds)
                else None)
          else None)"

text \<open>
  A decimal numeral: an optional sign, digits with an optional point among them (at
  least one digit in all) and an optional exponent. The result is the sign, the digits
  read as an integer and the power of ten that scales it.
\<close>

definition parse_decimal :: "string \<Rightarrow> (bool \<times> int \<times> int) option" where
  "parse_decimal s =
     (let (neg, r) = take_sign s;
          ip = takeWhile is_digit r;
          r1 = dropWhile is_digit r;
          has_point = (r1 \<noteq> [] \<and> hd r1 = CHR ''.'');
          r2 = (if has_point then tl r1 else r1);
          fp = (if has_point then takeWhile is_digit r2 else []);
          r3 = (if has_point then dropWhile is_digit r2 else r2)
      in if ip = [] \<and> fp = [] then None
         else (case parse_exponent r3 of
                 None \<Rightarrow> None
               | Some ex \<Rightarrow> Some (neg, int_of_digits (ip @ fp), ex - int (length fp))))"

definition string_to_double :: "string \<Rightarrow> pyfloat option" where
  "string_to_double s =
     (case parse_decimal s of
        Some (neg, m, k) \<Rightarrow> Some (to_double neg m k)
      | None \<Rightarrow> parse_inf_or_nan s)"

text \<open>
  The whitespace that \<open>float\<close> removes at both ends of its argument. It is less than
  what \<open>str.strip\<close> removes: the separators with code points 28 to 31 stay, and make
  the conversion fail.
\<close>

definition is_float_space :: "char \<Rightarrow> bool" where
  "is_float_space c =
     (let n = of_char c :: nat
      in (9 \<le> n \<and> n \<le> 13) \<or> n = 32 \<or> n = 133 \<or> n = 160)"

text \<open>\<open>float(s)\<close>; \<open>None\<close> stands for the \<open>ValueError\<close> it raises.\<close>

definition py_float :: "string \<Rightarrow> pyfloat option" where
  "py_float s =
     (let t = rev (dropWhile is_float_space (rev (dropWhile is_float_space s)))
      in if CHR ''_'' \<in> set t
         then (case strip_underscores None t of
                 None \<Rightarrow> None
               | Some u \<Rightarrow> string_to_double u)
         else string_to_double t)"

text \<open>The comparison \<open>x <= 0\<close>; it is false for not-a-number.\<close>

fun float_le_zero :: "pyfloat \<Rightarrow> bool" where
  "float_le_zero (Fin neg m e) = (neg \<or> m = 0)"
| "float_le_zero (Infinity neg) = neg"
| "float_le_zero NaN = False"

text \<open>The format \<open>.2f\<close>: two digits after the point, correctly rounded.\<close>

fun format_2f :: "pyfloat \<Rightarrow> string" where
  "format_2f (Fin neg m e) =
     (let h = (if 0 \<le> e then m * 2 ^ nat e * 100 else round_half_even (m * 100) (2 ^ nat (- e)))
      in (if neg then ''-'' else []) @ dec_digits (h div 100) @ ''.'' @ zero_pad 2 (dec_digits (h mod 100)))"
| "format_2f (Infinity neg) = (if neg then ''-inf'' else ''inf'')"
| "format_2f NaN = ''nan''"

section \<open>Request builder: \<open>parse_amounts\<close>\<close>

text \<open>
  The body of the \<open>try\<close> statement for one stripped, non-empty token: the amount as
  formatted, or the exception raised inside the \<open>try\<close>.
\<close>

definition try_amount :: "string \<Rightarrow> pyerr + string" where
  "try_amount token =
     (case py_float token of
        None \<Rightarrow> Inl (ValueError (''could not convert string to float: '' @ token))
      | Some amt \<Rightarrow>
          if float_le_zero amt then Inl (ValueError ''Amount must be positive'')
          else Inr (format_2f amt))"

text \<open>
  The \<open>for\<close> loop over the pieces of the input, with the list \<open>values\<close> built so far.
  Every exception of the \<open>try\<close> body is replaced by the \<open>Invalid amount\<close> error.
\<close>

fun parse_loop :: "string list \<Rightarrow> string list \<Rightarrow> pyerr + string list" where
  "parse_loop [] values = Inr values"
| "parse_loop (tok # toks) values =
     (let token = str_strip tok
      in if token = [] then parse_loop toks values
         else (case try_amount token of
                 Inl _ \<Rightarrow> Inl (ValueError (''Invalid amount: '' @ token))
               | Inr v \<Rightarrow> parse_loop toks (values @ [v])))"

definition parse_amounts :: "string \<Rightarrow> pyerr + string list" where
  "parse_amounts raw =
     (case parse_loop
             (str_split (CHR 0x0A)
                (str_replace CHR '','' (CHR 0x0A) (str_replace (CHR 0x0D) (CHR 0x0A) raw))) [] of
        Inl e \<Rightarrow> Inl e
      | Inr values \<Rightarrow>
          if values = [] then Inl (ValueError ''At least one amount is required'')
          else Inr values)"

section \<open>Request builder: \<open>build_payout_body\<close>\<close>

text \<open>
  The payout document is a dictionary with fixed keys, so it is a record. The key
  \<open>value\<close> of the amount dictionary is the field \<open>val\<close>.
\<close>

record amount_dict =
  val :: string
  currency :: string

record payout_item =
  amount :: amount_dict
  sender_item_id :: string
  recipient_wallet :: string
  receiver :: string
  purpose :: string

record batch_header_dict =
  sender_batch_id :: string
  recipient_type :: string
  email_subject :: string
  email_message :: string

record payout_body =
  sender_batch_header :: batch_header_dict
  items :: "payout_item list"

subsection \<open>The batch identifier\<close>

text \<open>
  \<open>uuid.uuid4()\<close> draws 128 random bits and overwrites the variant and version bits.
  The draw is an argument of the model: \<open>uuid4 r\<close> is the identifier made from the
  random bits \<open>r\<close>.
\<close>

definition uuid4 :: "128 word \<Rightarrow> 128 word" where
  "uuid4 r =
     (((r AND NOT (push_bit 48 0xc000)) OR push_bit 48 0x8000)
        AND NOT (push_bit 64 0xf000)) OR push_bit 76 4"

definition hex_digit :: "nat \<Rightarrow> char" where
  "hex_digit d = (if d < 10 then char_of (48 + d) else char_of (87 + d))"

text \<open>The attribute \<open>hex\<close>: 32 lower-case hexadecimal digits, most significant first.\<close>

definition uuid_hex :: "128 word \<Rightarrow> string" where
  "uuid_hex u = map (\<lambda>i. hex_digit (unat (drop_bit (4 * (31 - i)) u AND 15))) [0..<32]"

definition generate_sender_batch_id :: "128 word \<Rightarrow> string" where
  "generate_sender_batch_id r = ''SB-'' @ take 16 (uuid_hex (uuid4 r))"

subsection \<open>The items\<close>

text \<open>The format \<open>03d\<close> of an integer: at least three characters, padded with zeros
  after the sign.\<close>

definition format_03d :: "int \<Rightarrow> string" where
  "format_03d i =
     (if i < 0 then CHR ''-'' # zero_pad 2 (dec_digits (- i)) else zero_pad 3 (dec_digits i))"

text \<open>
  The loop \<open>for idx, amount in enumerate(amounts, start=1)\<close>: \<open>idx\<close> is the current
  index, \<open>acc\<close> the list \<open>items\<close> built so far.
\<close>

fun items_loop :: "string \<Rightarrow> string \<Rightarrow> int \<Rightarrow> string list \<Rightarrow> payout_item list \<Rightarrow> payout_item list" where
  "items_loop email ccy idx [] acc = acc"
| "items_loop email ccy idx (a # as) acc =
     items_loop email ccy (idx + 1) as
       (acc @ [\<lparr>amount = \<lparr>val = a, currency = ccy\<rparr>,
                sender_item_id = ''web-'' @ format_03d idx,
                recipient_wallet = ''PAYPAL'',
                receiver = email,
                purpose = ''GOODS''\<rparr>])"

text \<open>The last argument is the random draw behind the batch identifier.\<close>

definition build_payout_body ::
  "string \<Rightarrow> string list \<Rightarrow> string \<Rightarrow> string \<Rightarrow> string \<Rightarrow> 128 word \<Rightarrow> payout_body" where
  "build_payout_body email amounts ccy subject message r =
     \<lparr>sender_batch_header =
        \<lparr>sender_batch_id = generate_sender_batch_id r,
         recipient_type = ''EMAIL'',
         email_subject = subject,
         email_message = message\<rparr>,
      items = items_loop email ccy 1 amounts []\<rparr>"

section \<open>Provider client\<close>

subsection \<open>Documents\<close>

text \<open>
  What \<open>json.loads\<close> returns: \<open>JNull\<close> is \<open>None\<close>, a \<open>JObj\<close> is a \<open>dict\<close> given by its
  items in order, a \<open>JArr\<close> is a \<open>list\<close>.
\<close>

datatype json =
    JNull
  | JBool bool
  | JInt int
  | JFloat pyfloat
  | JStr string
  | JArr "json list"
  | JObj "(string \<times> json) list"

text \<open>The truth value of an object, as \<open>if\<close>, \<open>not\<close> and \<open>or\<close> take it.\<close>

fun truthy :: "json \<Rightarrow> bool" where
  "truthy JNull = False"
| "truthy (JBool b) = b"
| "truthy (JInt i) = (i \<noteq> 0)"
| "truthy (JFloat (Fin neg m e)) = (m \<noteq> 0)"
| "truthy (JFloat (Infinity neg)) = True"
| "truthy (JFloat NaN) = True"
| "truthy (JStr s) = (s \<noteq> [])"
| "truthy (JArr xs) = (xs \<noteq> [])"
| "truthy (JObj kvs) = (kvs \<noteq> [])"

text \<open>\<open>a or b\<close>.\<close>

definition py_or :: "json \<Rightarrow> json \<Rightarrow> json" where
  "py_or a b = (if truthy a then a else b)"

fun type_name :: "json \<Rightarrow> string" where
  "type_name JNull = ''NoneType''"
| "type_name (JBool b) = ''bool''"
| "type_name (JInt i) = ''int''"
| "type_name (JFloat f) = ''float''"
| "type_name (JStr s) = ''str''"
| "type_name (JArr xs) = ''list''"
| "type_name (JObj kvs) = ''dict''"

definition no_attribute :: "json \<Rightarrow> string \<Rightarrow> pyerr" where
  "no_attribute v name =
     AttributeError ([CHR 0x27] @ type_name v @ [CHR 0x27] @ '' object has no attribute ''
                     @ [CHR 0x27] @ name @ [CHR 0x27])"

text \<open>\<open>v.get(key, default)\<close>: only a \<open>dict\<close> has the method.\<close>

fun py_get :: "json \<Rightarrow> string \<Rightarrow> json \<Rightarrow> pyerr + json" where
  "py_get (JObj kvs) key dflt = Inr (case map_of kvs key of None \<Rightarrow> dflt | Some v \<Rightarrow> v)"
| "py_get v key dflt = Inl (no_attribute v ''get'')"

text \<open>The objects a \<open>for\<close> loop over \<open>v\<close> visits: the elements of a list, the keys of a
  dictionary, the characters of a string; other documents are not iterable.\<close>

fun py_iter :: "json \<Rightarrow> pyerr + json list" where
  "py_iter (JArr xs) = Inr xs"
| "py_iter (JObj kvs) = Inr (map (\<lambda>kv. JStr (fst kv)) kvs)"
| "py_iter (JStr s) = Inr (map (\<lambda>c. JStr [c]) s)"
| "py_iter v = Inl (TypeError ([CHR 0x27] @ type_name v @ [CHR 0x27] @ '' object is not iterable''))"

text \<open>\<open>needle in v\<close> for a string \<open>needle\<close>: a substring test on a string, membership in
  a list, a key test on a dictionary.\<close>

fun py_in :: "string \<Rightarrow> json \<Rightarrow> pyerr + bool" where
  "py_in needle (JStr s) = Inr (str_contains needle s)"
| "py_in needle (JArr xs) = Inr (List.member xs (JStr needle))"
| "py_in needle (JObj kvs) = Inr (List.member (map fst kvs) needle)"
| "py_in needle v =
     Inl (TypeError (''argument of type '' @ [CHR 0x27] @ type_name v @ [CHR 0x27]
                     @ '' is not iterable''))"

text \<open>\<open>v.rsplit("/", 1)[-1]\<close>: only a \<open>str\<close> has the method.\<close>

fun py_rsplit_last :: "json \<Rightarrow> pyerr + json" where
  "py_rsplit_last (JStr s) = Inr (JStr (rsplit_last CHR ''/'' s))"
| "py_rsplit_last v = Inl (no_attribute v ''rsplit'')"

subsection \<open>\<open>_extract_batch_id\<close>\<close>

text \<open>The loop over the links; \<open>JNull\<close> is the \<open>None\<close> returned after it.\<close>

fun links_loop :: "json list \<Rightarrow> pyerr + json" where
  "links_loop [] = Inr JNull"
| "links_loop (link # rest) =
     (case py_get link ''href'' JNull of
        Inl e \<Rightarrow> Inl e
      | Inr href \<Rightarrow>
          if \<not> truthy href then links_loop rest
          else (case py_in ''/v1/payments/payouts/'' href of
                  Inl e \<Rightarrow> Inl e
                | Inr False \<Rightarrow> links_loop rest
                | Inr True \<Rightarrow> py_rsplit_last href))"

text \<open>The fallback: everything after the \<open>if isinstance\<close> statement.\<close>

definition links_fallback :: "json \<Rightarrow> pyerr + json" where
  "links_fallback payout_response =
     (case py_get payout_response ''links'' (JArr []) of
        Inl e \<Rightarrow> Inl e
      | Inr links \<Rightarrow>
          (case py_iter (py_or links (JArr [])) of
             Inl e \<Rightarrow> Inl e
           | Inr ls \<Rightarrow> links_loop ls))"

text \<open>The identifier read from a batch header that is a \<open>dict\<close>.\<close>

definition header_id :: "(string \<times> json) list \<Rightarrow> json" where
  "header_id h =
     py_or (case map_of h ''payout_batch_id'' of None \<Rightarrow> JNull | Some v \<Rightarrow> v)
           (case map_of h ''payoutBatchId'' of None \<Rightarrow> JNull | Some v \<Rightarrow> v)"

text \<open>\<open>payout_response.get("batch_header") or payout_response.get("batchHeader")\<close>; the
  second lookup happens only when the first value is false.\<close>

definition batch_header_of :: "json \<Rightarrow> pyerr + json" where
  "batch_header_of payout_response =
     (case py_get payout_response ''batch_header'' JNull of
        Inl e \<Rightarrow> Inl e
      | Inr a \<Rightarrow> if truthy a then Inr a else py_get payout_response ''batchHeader'' JNull)"

definition extract_batch_id :: "json \<Rightarrow> pyerr + json" where
  "extract_batch_id payout_response =
     (case batch_header_of payout_response of
        Inl e \<Rightarrow> Inl e
      | Inr batch_header \<Rightarrow>
          (case batch_header of
             JObj h \<Rightarrow>
               if truthy (header_id h) then Inr (header_id h)
               else links_fallback payout_response
           | _ \<Rightarrow> links_fallback payout_response))"

subsection \<open>Remote calls\<close>

text \<open>
  \<open>str(error)\<close> for an exception.
\<close>

fun py_str :: "pyerr \<Rightarrow> string" where
  "py_str (ValueError m) = m"
| "py_str (TypeError m) = m"
| "py_str (AttributeError m) = m"
| "py_str (URLError r) = ''<urlopen error '' @ r @ ''>''"
| "py_str (HTTPError code msg body) = ''HTTP Error '' @ str_int code @ '': '' @ msg"
| "py_str (RuntimeError m) = m"
| "py_str (RuntimeErrorFrom m cause) = m"

text \<open>
  The client sends two kinds of request: the token exchange, a POST to \<open>OAUTH_URL\<close>
  with the client identifier and secret as basic authentication, and the payout
  submission, a POST to \<open>PAYOUTS_URL\<close> with the bearer token, the payout document and
  the flag \<open>prefer_async\<close>. The model keeps which request is sent and with what data;
  the encoding of headers and body is not part of it.
\<close>

datatype remote_call =
    Token_request string string
  | Payout_request json payout_body bool

text \<open>
  What the provider answers. A response has a status, a reason phrase, the result of
  \<open>read().decode("utf-8")\<close> on its body (the text, or on the left the message of the
  exception raised) and the result of \<open>json.loads\<close> on that text. A request that gets
  no response raises an exception in \<open>urlopen\<close>.
\<close>

record http_response =
  status :: int
  reason :: string
  decoded :: "string + string"
  loaded :: "pyerr + json"

datatype http_outcome = Transport_error pyerr | Response http_response

text \<open>\<open>urllib.request.urlopen\<close>: a response whose status is not 2xx is raised as an
  \<open>HTTPError\<close>.\<close>

definition urlopen :: "http_outcome \<Rightarrow> pyerr + http_response" where
  "urlopen outcome =
     (case outcome of
        Transport_error e \<Rightarrow> Inl e
      | Response resp \<Rightarrow>
          if 200 \<le> status resp \<and> status resp < 300 then Inr resp
          else Inl (HTTPError (status resp) (reason resp) (decoded resp)))"

text \<open>\<open>json.loads(response.read().decode("utf-8"))\<close>; a decoding error is a
  \<open>ValueError\<close>.\<close>

definition read_json :: "http_response \<Rightarrow> pyerr + json" where
  "read_json resp =
     (case decoded resp of
        Inl m \<Rightarrow> Inl (ValueError m)
      | Inr body \<Rightarrow> loaded resp)"

subsection \<open>\<open>get_access_token\<close>\<close>

text \<open>The body of the \<open>try\<close> statement, given the outcome of the request.\<close>

definition token_of_outcome :: "http_outcome \<Rightarrow> pyerr + json" where
  "token_of_outcome outcome =
     (case urlopen outcome of
        Inl e \<Rightarrow> Inl e
      | Inr resp \<Rightarrow>
          (case read_json resp of
             Inl e \<Rightarrow> Inl e
           | Inr payload \<Rightarrow>
               (case py_get payload ''access_token'' JNull of
                  Inl e \<Rightarrow> Inl e
                | Inr token \<Rightarrow>
                    if \<not> truthy token
                    then Inl (RuntimeError ''No access_token in PayPal OAuth response'')
                    else Inr token)))"

text \<open>
  The function returns the requests it has sent and its result. \<open>net\<close> is the provider:
  the outcome of each request.
\<close>

definition get_access_token ::
  "(remote_call \<Rightarrow> http_outcome) \<Rightarrow> string \<Rightarrow> string \<Rightarrow> remote_call list \<times> (pyerr + json)" where
  "get_access_token net client_id client_secret =
     (let request = Token_request client_id client_secret
      in ([request],
          (case token_of_outcome (net request) of
             Inl error \<Rightarrow>
               Inl (RuntimeErrorFrom (''Failed to obtain PayPal access token: '' @ py_str error) error)
           | Inr token \<Rightarrow> Inr token)))"

subsection \<open>\<open>create_payout\<close>\<close>

definition create_payout ::
  "(remote_call \<Rightarrow> http_outcome) \<Rightarrow> json \<Rightarrow> payout_body \<Rightarrow> bool \<Rightarrow> remote_call list \<times> (pyerr + json)" where
  "create_payout net access_token payout_payload prefer_async =
     (let request = Payout_request access_token payout_payload prefer_async
      in ([request],
          (case (case urlopen (net request) of Inl e \<Rightarrow> Inl e | Inr resp \<Rightarrow> read_json resp) of
             Inl (HTTPError code msg body) \<Rightarrow>
               (case body of
                  Inl m \<Rightarrow> Inl (ValueError m)
                | Inr error_body \<Rightarrow>
                    Inl (RuntimeErrorFrom
                           (''PayPal payout failed: HTTP '' @ str_int code @ '' '' @ error_body)
                           (HTTPError code msg body)))
           | Inl error \<Rightarrow> Inl (RuntimeErrorFrom (''PayPal payout failed: '' @ py_str error) error)
           | Inr document \<Rightarrow> Inr document)))"

section \<open>The route \<open>POST /payout\<close>\<close>

text \<open>
  \<open>str.upper\<close> for one character: the letters \<open>a\<close> to \<open>z\<close> and the accented letters of
  the upper half lose 32, the sharp s becomes \<open>SS\<close>. The micro sign and the y with
  diaeresis have capitals beyond code point 255; they are left as they are here.
\<close>

definition upper_char :: "char \<Rightarrow> string" where
  "upper_char c =
     (let n = of_char c :: nat
      in if (97 \<le> n \<and> n \<le> 122) \<or> (224 \<le> n \<and> n \<le> 254 \<and> n \<noteq> 247) then [char_of (n - 32)]
         else if n = 223 then ''SS''
         else [c])"

definition str_upper :: "string \<Rightarrow> string" where
  "str_upper s = concat (map upper_char s)"

text \<open>\<open>d.get(key, default)\<close> on the form, and \<open>a or b\<close> for two values that are a
  string or \<open>None\<close>.\<close>

definition form_get :: "(string \<rightharpoonup> string) \<Rightarrow> string \<Rightarrow> string \<Rightarrow> string" where
  "form_get form key dflt = (case form key of None \<Rightarrow> dflt | Some v \<Rightarrow> v)"

definition str_or :: "string \<Rightarrow> string \<Rightarrow> string" where
  "str_or a b = (if a \<noteq> [] then a else b)"

definition opt_truthy :: "string option \<Rightarrow> bool" where
  "opt_truthy a = (case a of None \<Rightarrow> False | Some s \<Rightarrow> s \<noteq> [])"

definition opt_or :: "string option \<Rightarrow> string option \<Rightarrow> string option" where
  "opt_or a b = (if opt_truthy a then a else b)"

text \<open>
  What the handler leaves behind: the session, the messages flashed (text and
  category), the response and the remote requests sent, in order.
\<close>

datatype route_response = Redirect_index | Redirect_status json | Render_result json

record route_result =
  session_after :: "string \<rightharpoonup> string"
  flashes :: "(string \<times> string) list"
  response :: route_response
  calls :: "remote_call list"

text \<open>The handler of \<open>except Exception\<close>.\<close>

definition route_failed :: "(string \<rightharpoonup> string) \<Rightarrow> remote_call list \<Rightarrow> pyerr \<Rightarrow> route_result" where
  "route_failed sess cs error =
     \<lparr>session_after = sess, flashes = [(py_str error, ''error'')],
      response = Redirect_index, calls = cs\<rparr>"

text \<open>
  The part of the handler after the e-mail check. \<open>r\<close> is the random draw of the batch
  identifier.
\<close>

definition submit_payout ::
  "(remote_call \<Rightarrow> http_outcome) \<Rightarrow> 128 word \<Rightarrow> (string \<rightharpoonup> string) \<Rightarrow> string \<Rightarrow> string \<Rightarrow>
   string \<Rightarrow> string \<Rightarrow> string \<Rightarrow> string \<Rightarrow> string \<Rightarrow> route_result" where
  "submit_payout net r sess client_id client_secret email raw_amounts ccy subject message =
     (case parse_amounts raw_amounts of
        Inl error \<Rightarrow> route_failed sess [] error
      | Inr amounts \<Rightarrow>
          let payout_body = build_payout_body email amounts ccy subject message r;
              (cs1, got) = get_access_token net client_id client_secret
          in (case got of
                Inl error \<Rightarrow> route_failed sess cs1 error
              | Inr token \<Rightarrow>
                  let (cs2, created) = create_payout net token payout_body True
                  in (case created of
                        Inl error \<Rightarrow> route_failed sess (cs1 @ cs2) error
                      | Inr result \<Rightarrow>
                          (case extract_batch_id result of
                             Inl error \<Rightarrow> route_failed sess (cs1 @ cs2) error
                           | Inr batch_id \<Rightarrow>
                               if \<not> truthy batch_id
                               then \<lparr>session_after = sess,
                                     flashes = [(''Payout created but no batch id returned'', ''warning'')],
                                     response = Render_result result, calls = cs1 @ cs2\<rparr>
                               else \<lparr>session_after = sess, flashes = [],
                                     response = Redirect_status batch_id, calls = cs1 @ cs2\<rparr>))))"

text \<open>The first statements of the handler: credentials given in the form are stored in
  the session.\<close>

definition store_credentials :: "(string \<rightharpoonup> string) \<Rightarrow> (string \<rightharpoonup> string) \<Rightarrow> (string \<rightharpoonup> string)" where
  "store_credentials form sess =
     (let form_client_id = str_strip (form_get form ''client_id'' []);
          form_client_secret = str_strip (form_get form ''client_secret'' [])
      in if form_client_id \<noteq> [] \<and> form_client_secret \<noteq> []
         then sess(''paypal_client_id'' \<mapsto> form_client_id,
                   ''paypal_client_secret'' \<mapsto> form_client_secret)
         else sess)"

text \<open>The credentials used: those of the session, or else those of the environment.\<close>

definition client_id_of :: "(string \<rightharpoonup> string) \<Rightarrow> (string \<rightharpoonup> string) \<Rightarrow> string option" where
  "client_id_of environ sess = opt_or (sess ''paypal_client_id'') (environ ''PAYPAL_CLIENT_ID'')"

definition client_secret_of :: "(string \<rightharpoonup> string) \<Rightarrow> (string \<rightharpoonup> string) \<Rightarrow> string option" where
  "client_secret_of environ sess =
     opt_or (sess ''paypal_client_secret'') (environ ''PAYPAL_CLIENT_SECRET'')"

definition create_payout_route ::
  "(remote_call \<Rightarrow> http_outcome) \<Rightarrow> 128 word \<Rightarrow> (string \<rightharpoonup> string) \<Rightarrow> (string \<rightharpoonup> string) \<Rightarrow>
   (string \<rightharpoonup> string) \<Rightarrow> route_result" where
  "create_payout_route net r environ sess form =
     (let sess1 = store_credentials form sess;
          client_id = client_id_of environ sess1;
          client_secret = client_secret_of environ sess1
      in if \<not> opt_truthy client_id \<or> \<not> opt_truthy client_secret
         then \<lparr>session_after = sess1,
               flashes = [(''Provide PayPal Client ID/Secret in the form or set environment variables.'',
                           ''error'')],
               response = Redirect_index, calls = []\<rparr>
         else
           let cid = (case client_id of None \<Rightarrow> [] | Some v \<Rightarrow> v);
               csecret = (case client_secret of None \<Rightarrow> [] | Some v \<Rightarrow> v);
               email = str_strip (form_get form ''email'' []);
               raw_amounts = str_strip (form_get form ''amounts'' []);
               ccy = str_or (str_upper (str_strip (form_get form ''currency'' ''USD''))) ''USD'';
               subject = str_or (str_strip (form_get form ''subject'' ''You have money!''))
                           ''You have money!'';
               message = str_or (str_strip (form_get form ''message''
                             ''You received a payment. Thanks for using our service!''))
                           ''You received a payment. Thanks for using our service!''
           in if email = []
              then \<lparr>session_after = sess1, flashes = [(''Recipient email is required'', ''error'')],
                    response = Redirect_index, calls = []\<rparr>
              else submit_payout net r sess1 cid csecret email raw_amounts ccy subject message)"

section \<open>The monetary amount of the specification\<close>

text \<open>
  The specification's MonetaryAmount, in its words: a decimal string with exactly two
  fractional digits whose value is a finite, strictly positive number. The string is
  digits, a point and two digits, and the number they spell is above zero.
\<close>

definition is_monetary_amount :: "string \<Rightarrow> bool" where
  "is_monetary_amount s =
     (let ip = takeWhile is_digit s; r = dropWhile is_digit s
      in ip \<noteq> [] \<and> length r = 3 \<and> take 1 r = ''.'' \<and> list_all is_digit (drop 1 r)
         \<and> 0 < int_of_digits (ip @ drop 1 r))"

section \<open>Notions used to state the properties\<close>

text \<open>
  The tokens of an input, as the specification describes them: the pieces between commas
  and line ends, trimmed, without the empty ones.
\<close>

definition amount_tokens :: "string \<Rightarrow> string list" where
  "amount_tokens raw =
     filter (\<lambda>t. t \<noteq> [])
       (map str_strip
          (str_split (CHR 0x0A)
             (str_replace CHR '','' (CHR 0x0A) (str_replace (CHR 0x0D) (CHR 0x0A) raw))))"

text \<open>A bad token: one that \<open>float\<close> does not parse, or whose value is \<open><= 0\<close>.\<close>

definition bad_token :: "string \<Rightarrow> bool" where
  "bad_token t = (case py_float t of None \<Rightarrow> True | Some amt \<Rightarrow> float_le_zero amt)"

text \<open>The amount a token is printed as.\<close>

definition amount_text :: "string \<Rightarrow> string" where
  "amount_text t = (case py_float t of None \<Rightarrow> [] | Some amt \<Rightarrow> format_2f amt)"

text \<open>
  A link of the expected shape: a dictionary whose \<open>href\<close>, when it has one, is a string
  or \<open>None\<close>. \<open>payout_hrefs\<close> are the link targets that contain the payouts path, in the
  order of the links.
\<close>

definition link_ok :: "json \<Rightarrow> bool" where
  "link_ok link =
     (case link of
        JObj kvs \<Rightarrow>
          (case map_of kvs ''href'' of
             None \<Rightarrow> True
           | Some JNull \<Rightarrow> True
           | Some (JStr s) \<Rightarrow> True
           | Some _ \<Rightarrow> False)
      | _ \<Rightarrow> False)"

definition link_href :: "json \<Rightarrow> string list" where
  "link_href link =
     (case link of
        JObj kvs \<Rightarrow> (case map_of kvs ''href'' of Some (JStr s) \<Rightarrow> [s] | _ \<Rightarrow> [])
      | _ \<Rightarrow> [])"

definition payout_hrefs :: "json list \<Rightarrow> string list" where
  "payout_hrefs ls = filter (str_contains ''/v1/payments/payouts/'') (concat (map link_href ls))"

text \<open>A provider that gives the same answer to every request.\<close>

definition always :: "http_outcome \<Rightarrow> remote_call \<Rightarrow> http_outcome" where
  "always outcome request = outcome"




section \<open>Decimal digits\<close>

lemma digit_char_props:
  assumes "0 \<le> d" "d < 10"
  shows "is_digit (digit_char d)" and "digit_val (digit_char d) = d"
  using assms by (simp_all add: is_digit_def digit_char_def digit_val_def Let_def)

lemma int_of_digits_snoc: "int_of_digits (xs @ [c]) = 10 * int_of_digits xs + digit_val c"
  by (simp add: int_of_digits_def)

lemma dec_digits_props:
  "0 \<le> n \<Longrightarrow>
   list_all is_digit (dec_digits n) \<and> int_of_digits (dec_digits n) = n \<and> dec_digits n \<noteq> []"
proof (induction n rule: dec_digits.induct)
  case (1 n)
  show ?case
  proof (cases "n < 10")
    case True
    with "1.prems" show ?thesis
      by (simp add: dec_digits.simps [of n] digit_char_props int_of_digits_def)
  next
    case False
    then have ih: "list_all is_digit (dec_digits (n div 10))"
      "int_of_digits (dec_digits (n div 10)) = n div 10"
      using "1.IH" "1.prems" by auto
    have d: "0 \<le> n mod 10" "n mod 10 < 10" by auto
    from False ih d show ?thesis
      by (simp add: dec_digits.simps [of n] digit_char_props int_of_digits_snoc)
  qed
qed

lemma int_of_digits_zeros: "int_of_digits (replicate k CHR ''0'' @ s) = int_of_digits s"
proof -
  have "foldl (\<lambda>acc c. 10 * acc + digit_val c) 0 (replicate k CHR ''0'') = 0"
    by (induction k) (simp_all add: digit_val_def)
  then show ?thesis by (simp add: int_of_digits_def)
qed

lemma zero_pad_props:
  "list_all is_digit s \<Longrightarrow> list_all is_digit (zero_pad w s)"
  "int_of_digits (zero_pad w s) = int_of_digits s"
  "length (zero_pad w s) = max w (length s)"
  by (auto simp: zero_pad_def int_of_digits_zeros list_all_iff is_digit_def)

lemma format_03d_props:
  assumes "0 \<le> n"
  shows "list_all is_digit (format_03d n)"
    and "int_of_digits (format_03d n) = n"
    and "3 \<le> length (format_03d n)"
  using assms dec_digits_props [of n] by (simp_all add: format_03d_def zero_pad_props)

lemma dec_digits_length:
  assumes "0 \<le> n" "n < 1000"
  shows "length (dec_digits n) \<le> 3"
proof -
  have a: "n div 10 div 10 < 10" using assms by simp
  show ?thesis
    using a
    by (simp add: dec_digits.simps [of n] dec_digits.simps [of "n div 10"]
          dec_digits.simps [of "n div 10 div 10"])
qed

lemma format_03d_length:
  assumes "0 \<le> n" "n < 1000"
  shows "length (format_03d n) = 3"
  using assms dec_digits_length [of n] by (simp add: format_03d_def zero_pad_props)

section \<open>Properties of \<open>parse_amounts\<close>\<close>

text \<open>The loop stops at the first bad token; without one it returns an amount for
  each token.\<close>

lemma try_amount_cases:
  "try_amount t = (if bad_token t then Inl (ValueError (if py_float t = None then ''could not convert string to float: '' @ t else ''Amount must be positive'')) else Inr (amount_text t))"
  by (simp add: try_amount_def bad_token_def amount_text_def split: option.splits)

lemma parse_loop_tokens:
  "parse_loop toks values =
     (case find bad_token (filter (\<lambda>t. t \<noteq> []) (map str_strip toks)) of
        Some t \<Rightarrow> Inl (ValueError (''Invalid amount: '' @ t))
      | None \<Rightarrow> Inr (values @ map amount_text (filter (\<lambda>t. t \<noteq> []) (map str_strip toks))))"
proof (induction toks arbitrary: "values")
  case Nil
  show ?case by simp
next
  case (Cons tok toks)
  show ?case
  proof (cases "str_strip tok = []")
    case True
    then show ?thesis using Cons.IH [of "values"] by (simp split: option.splits)
  next
    case False
    show ?thesis
    proof (cases "bad_token (str_strip tok)")
      case True
      with False show ?thesis by (simp add: try_amount_cases split: option.splits)
    next
      case good: False
      with False show ?thesis
        using Cons.IH [of "values @ [amount_text (str_strip tok)]"]
        by (simp add: try_amount_cases split: option.splits)
    qed
  qed
qed

lemma parse_amounts_tokens:
  "parse_amounts raw =
     (case find bad_token (amount_tokens raw) of
        Some t \<Rightarrow> Inl (ValueError (''Invalid amount: '' @ t))
      | None \<Rightarrow>
          if amount_tokens raw = [] then Inl (ValueError ''At least one amount is required'')
          else Inr (map amount_text (amount_tokens raw)))"
  by (simp add: parse_amounts_def parse_loop_tokens amount_tokens_def split: option.splits)

lemma str_split_subset: "p \<in> set (str_split sep s) \<Longrightarrow> set p \<subseteq> set s"
proof (induction s arbitrary: p)
  case Nil
  then show ?case by simp
next
  case (Cons c cs)
  show ?case
  proof (cases "c = sep")
    case True
    with Cons show ?thesis by auto
  next
    case False
    obtain q qs where q: "str_split sep cs = q # qs"
      by (cases "str_split sep cs") (cases cs, auto split: if_splits list.splits)
    with False Cons.prems have "p = c # q \<or> p \<in> set qs" by auto
    then show ?thesis
    proof
      assume "p = c # q"
      moreover have "set q \<subseteq> set cs" using Cons.IH [of q] q by simp
      ultimately show ?thesis by auto
    next
      assume "p \<in> set qs"
      then have "set p \<subseteq> set cs" using Cons.IH [of p] q by simp
      then show ?thesis by auto
    qed
  qed
qed

lemma str_strip_spaces:
  assumes "list_all is_space p"
  shows "str_strip p = []"
proof -
  from assms have d: "dropWhile is_space p = []" by (simp add: list_all_iff)
  show ?thesis unfolding str_strip_def d by simp
qed

lemma is_space_newline: "is_space (CHR 0x0A)"
  by (simp add: is_space_def Let_def)

lemma amount_tokens_spaces:
  assumes "list_all is_space raw"
  shows "amount_tokens raw = []"
proof -
  let ?s = "str_replace CHR '','' (CHR 0x0A) (str_replace (CHR 0x0D) (CHR 0x0A) raw)"
  from assms have s: "\<forall>c \<in> set ?s. is_space c"
    by (auto simp: str_replace_def list_all_iff is_space_newline)
  have "str_strip p = []" if "p \<in> set (str_split (CHR 0x0A) ?s)" for p
  proof -
    from that have "set p \<subseteq> set ?s" by (rule str_split_subset)
    with s have "list_all is_space p" by (auto simp: list_all_iff)
    then show ?thesis by (rule str_strip_spaces)
  qed
  then show ?thesis by (auto simp: amount_tokens_def filter_empty_conv)
qed

text \<open>
  C1. On the input \<open>10,20.5\<close>, a newline, \<open>0.99\<close>, where a comma and a newline both
  separate amounts, \<open>parse_amounts\<close> returns exactly the three amounts with two decimals
  each, in the order of the input: \<open>10.00\<close>, \<open>20.50\<close>, \<open>0.99\<close>.
\<close>

theorem parse_amounts_example:
  "parse_amounts (''10,20.5'' @ [CHR 0x0A] @ ''0.99'') = Inr [''10.00'', ''20.50'', ''0.99'']"
  by code_simp

text \<open>
  C3. The claim is that every string \<open>parse_amounts\<close> returns is a monetary amount. The
  code accepts the token \<open>inf\<close>: \<open>float\<close> parses it, it is not \<open><= 0\<close>, and the format
  \<open>.2f\<close> prints it as \<open>inf\<close>, which has no fractional digits and is not finite. The token
  \<open>nan\<close> passes in the same way, and \<open>0.001\<close> is returned as \<open>0.00\<close>, which is not above
  zero.
\<close>

theorem parse_amounts_returns_inf:
  "parse_amounts ''inf'' = Inr [''inf''] \<and> \<not> is_monetary_amount ''inf''
   \<and> parse_amounts ''nan'' = Inr [''nan''] \<and> \<not> is_monetary_amount ''nan''
   \<and> parse_amounts ''0.001'' = Inr [''0.00''] \<and> \<not> is_monetary_amount ''0.00''"
  by code_simp

text \<open>
  C2. \<open>parse_amounts\<close> fails exactly when the input has no token or has a bad token.
  An input of whitespace only has no token, and an input without tokens fails with the
  error \<open>At least one amount is required\<close>. With a bad token the call fails with the
  error \<open>Invalid amount\<close> that names the first one. Otherwise it returns a sequence that
  is not empty, with one amount for each token.
\<close>

theorem parse_amounts_failure:
  "(isl (parse_amounts raw) = (amount_tokens raw = [] \<or> list_ex bad_token (amount_tokens raw)))
   \<and> (list_all is_space raw \<longrightarrow> amount_tokens raw = [])
   \<and> (amount_tokens raw = [] \<longrightarrow>
        parse_amounts raw = Inl (ValueError ''At least one amount is required''))
   \<and> (\<forall>t. find bad_token (amount_tokens raw) = Some t \<longrightarrow>
        parse_amounts raw = Inl (ValueError (''Invalid amount: '' @ t)))
   \<and> (amount_tokens raw \<noteq> [] \<and> \<not> list_ex bad_token (amount_tokens raw) \<longrightarrow>
        (\<exists>vs. parse_amounts raw = Inr vs \<and> vs \<noteq> [] \<and> length vs = length (amount_tokens raw)))"
proof -
  have f: "(find bad_token ts = None) = (\<not> list_ex bad_token ts)" for ts
    by (auto simp: find_None_iff list_ex_iff)
  show ?thesis
    using f [of "amount_tokens raw"]
    by (auto simp: parse_amounts_tokens amount_tokens_spaces split: option.splits)
qed

theorem parse_amounts_failure_witness:
  "list_all is_space ''   ''
   \<and> parse_amounts ''   '' = Inl (ValueError ''At least one amount is required'')
   \<and> parse_amounts [] = Inl (ValueError ''At least one amount is required'')
   \<and> find bad_token (amount_tokens ''-5'') = Some ''-5''
   \<and> parse_amounts ''-5'' = Inl (ValueError ''Invalid amount: -5'')
   \<and> find bad_token (amount_tokens ''abc'') = Some ''abc''
   \<and> parse_amounts ''abc'' = Inl (ValueError ''Invalid amount: abc'')
   \<and> amount_tokens ''5, 7'' = [''5'', ''7'']
   \<and> list_ex bad_token (amount_tokens ''5, 7'') = False
   \<and> isl (parse_amounts ''5, 7'') = False"
proof -
  have a: "list_all is_space ''   ''" by code_simp
  have b: "list_all is_space []" by simp
  have c: "find bad_token (amount_tokens ''-5'') = Some ''-5''" by code_simp
  have d: "find bad_token (amount_tokens ''abc'') = Some ''abc''" by code_simp
  have e: "amount_tokens ''5, 7'' = [''5'', ''7'']" by code_simp
  have g: "list_ex bad_token (amount_tokens ''5, 7'') = False" by code_simp
  from a b c d e g
    parse_amounts_failure [of "''   ''"] parse_amounts_failure [of "[]"]
    parse_amounts_failure [of "''-5''"] parse_amounts_failure [of "''abc''"]
    parse_amounts_failure [of "''5, 7''"]
  show ?thesis by auto
qed

section \<open>Properties of \<open>build_payout_body\<close>\<close>

text \<open>The loop appends to what it was given, one item for each amount.\<close>

lemma items_loop_acc:
  "items_loop email ccy idx as acc = acc @ items_loop email ccy idx as []"
proof (induction as arbitrary: idx acc)
  case Nil
  show ?case by simp
next
  case (Cons a as)
  show ?case
    using Cons.IH [of "idx + 1" "acc @ [x]" for x] Cons.IH [of "idx + 1" "[x]" for x]
    by simp
qed

lemma items_loop_length: "length (items_loop email ccy idx as []) = length as"
proof (induction as arbitrary: idx)
  case Nil
  show ?case by simp
next
  case (Cons a as)
  show ?case
    using items_loop_acc [of email ccy "idx + 1" as "[x]" for x] Cons.IH [of "idx + 1"]
    by simp
qed

lemma items_loop_nth:
  "i < length as \<Longrightarrow>
   items_loop email ccy idx as [] ! i =
     \<lparr>amount = \<lparr>val = as ! i, currency = ccy\<rparr>,
      sender_item_id = ''web-'' @ format_03d (idx + int i),
      recipient_wallet = ''PAYPAL'', receiver = email, purpose = ''GOODS''\<rparr>"
proof (induction as arbitrary: idx i)
  case Nil
  then show ?case by simp
next
  case (Cons a as)
  show ?case
  proof (cases i)
    case 0
    then show ?thesis
      using items_loop_acc [of email ccy "idx + 1" as "[x]" for x] by simp
  next
    case (Suc j)
    with Cons.prems have "j < length as" by simp
    from Cons.IH [OF this, of "idx + 1"] Suc show ?thesis
      using items_loop_acc [of email ccy "idx + 1" as "[x]" for x] by (simp add: add.assoc)
  qed
qed

text \<open>
  C4. For every sequence of \<open>N\<close> amounts, the batch has exactly \<open>N\<close> items, in the order
  of the amounts. The item at position \<open>i\<close> (counted from zero) carries the amount at
  that position, the given currency and receiver, the fixed wallet and purpose, and the
  identifier \<open>web-\<close> followed by the number \<open>i + 1\<close> in the format \<open>03d\<close>: at least three
  decimal digits that spell \<open>i + 1\<close>, and exactly three up to the 999th item. The numbers
  therefore start at one and grow by one from each item to the next.
\<close>

theorem build_payout_body_items:
  "length (items (build_payout_body email amounts ccy subject message r)) = length amounts
   \<and> (\<forall>i < length amounts.
        items (build_payout_body email amounts ccy subject message r) ! i =
          \<lparr>amount = \<lparr>val = amounts ! i, currency = ccy\<rparr>,
           sender_item_id = ''web-'' @ format_03d (int i + 1),
           recipient_wallet = ''PAYPAL'', receiver = email, purpose = ''GOODS''\<rparr>
        \<and> list_all is_digit (format_03d (int i + 1))
        \<and> 3 \<le> length (format_03d (int i + 1))
        \<and> int_of_digits (format_03d (int i + 1)) = int i + 1
        \<and> (i < 999 \<longrightarrow> length (format_03d (int i + 1)) = 3))"
  by (simp add: build_payout_body_def items_loop_length items_loop_nth format_03d_props
        format_03d_length add.commute)

theorem build_payout_body_items_witness:
  "length (items (build_payout_body ''a@b.com'' [''5.00'', ''10.00''] ''USD'' ''s'' ''m'' 0)) = 2
   \<and> map sender_item_id
         (items (build_payout_body ''a@b.com'' [''5.00'', ''10.00''] ''USD'' ''s'' ''m'' 0))
       = [''web-001'', ''web-002'']
   \<and> items (build_payout_body ''a@b.com'' [''5.00'', ''10.00''] ''USD'' ''s'' ''m'' 0) ! 1 =
          \<lparr>amount = \<lparr>val = ''10.00'', currency = ''USD''\<rparr>,
           sender_item_id = ''web-002'',
           recipient_wallet = ''PAYPAL'', receiver = ''a@b.com'', purpose = ''GOODS''\<rparr>"
proof -
  have f: "format_03d 2 = ''002''" by code_simp
  have l: "(1::nat) < length [''5.00'', ''10.00'']" by simp
  from build_payout_body_items [of "''a@b.com''" "[''5.00'', ''10.00'']" "''USD''" "''s''" "''m''" 0]
  have "items (build_payout_body ''a@b.com'' [''5.00'', ''10.00''] ''USD'' ''s'' ''m'' 0) ! 1 =
          \<lparr>amount = \<lparr>val = [''5.00'', ''10.00''] ! 1, currency = ''USD''\<rparr>,
           sender_item_id = ''web-'' @ format_03d (int 1 + 1),
           recipient_wallet = ''PAYPAL'', receiver = ''a@b.com'', purpose = ''GOODS''\<rparr>"
    using l by blast
  moreover
  have "length (items (build_payout_body ''a@b.com'' [''5.00'', ''10.00''] ''USD'' ''s'' ''m'' 0)) = 2"
    using build_payout_body_items [of "''a@b.com''" "[''5.00'', ''10.00'']" "''USD''" "''s''" "''m''" 0]
    by simp
  moreover
  have "map sender_item_id
          (items (build_payout_body ''a@b.com'' [''5.00'', ''10.00''] ''USD'' ''s'' ''m'' 0))
        = [''web-001'', ''web-002'']"
    by code_simp
  ultimately show ?thesis using f by simp
qed

text \<open>
  C5. Two calls with the same arguments and the random draws \<open>r1\<close> and \<open>r2\<close> give
  batches that are equal in every field but the batch identifier: the second batch is
  the first one with its own identifier put in, and the item lists are the same. The
  identifiers differ whenever the sixteen hexadecimal digits drawn for them differ.
\<close>

theorem build_payout_body_random:
  "build_payout_body email amounts ccy subject message r2 =
     (build_payout_body email amounts ccy subject message r1)
       \<lparr>sender_batch_header :=
          (sender_batch_header (build_payout_body email amounts ccy subject message r1))
            \<lparr>sender_batch_id :=
               sender_batch_id
                 (sender_batch_header (build_payout_body email amounts ccy subject message r2))\<rparr>\<rparr>
   \<and> items (build_payout_body email amounts ccy subject message r1)
       = items (build_payout_body email amounts ccy subject message r2)
   \<and> (take 16 (uuid_hex (uuid4 r1)) \<noteq> take 16 (uuid_hex (uuid4 r2)) \<longrightarrow>
        sender_batch_id (sender_batch_header (build_payout_body email amounts ccy subject message r1))
        \<noteq> sender_batch_id
             (sender_batch_header (build_payout_body email amounts ccy subject message r2)))"
  by (simp add: build_payout_body_def generate_sender_batch_id_def)

theorem build_payout_body_random_witness:
  "take 16 (uuid_hex (uuid4 0)) \<noteq> take 16 (uuid_hex (uuid4 (- 1)))
   \<and> sender_batch_id (sender_batch_header (build_payout_body ''a@b.com'' [''5.00''] ''USD'' ''s'' ''m'' 0))
     \<noteq> sender_batch_id
          (sender_batch_header (build_payout_body ''a@b.com'' [''5.00''] ''USD'' ''s'' ''m'' (- 1)))
   \<and> items (build_payout_body ''a@b.com'' [''5.00''] ''USD'' ''s'' ''m'' 0)
     = items (build_payout_body ''a@b.com'' [''5.00''] ''USD'' ''s'' ''m'' (- 1))"
proof -
  have d: "take 16 (uuid_hex (uuid4 0)) \<noteq> take 16 (uuid_hex (uuid4 (- 1)))"
    by code_simp
  with build_payout_body_random [of "''a@b.com''" "[''5.00'']" "''USD''" "''s''" "''m''" "- 1" 0]
  show ?thesis by blast
qed

section \<open>Properties of \<open>_extract_batch_id\<close>\<close>

text \<open>
  C6. \<open>_extract_batch_id\<close> reads the identifier under both naming conventions and falls
  back to the links: the document with \<open>batch_header.payout_batch_id = X\<close> gives \<open>X\<close>,
  the one with \<open>batchHeader.payoutBatchId = Y\<close> gives \<open>Y\<close>, the one whose only link ends
  in \<open>/v1/payments/payouts/Z\<close> gives \<open>Z\<close>, and the empty document gives \<open>None\<close>.
\<close>

theorem extract_batch_id_examples:
  "extract_batch_id (JObj [(''batch_header'', JObj [(''payout_batch_id'', JStr ''X'')])])
     = Inr (JStr ''X'')
   \<and> extract_batch_id (JObj [(''batchHeader'', JObj [(''payoutBatchId'', JStr ''Y'')])])
     = Inr (JStr ''Y'')
   \<and> extract_batch_id
       (JObj [(''links'', JArr [JObj [(''href'', JStr ''.../v1/payments/payouts/Z'')]])])
     = Inr (JStr ''Z'')
   \<and> extract_batch_id (JObj []) = Inr JNull"
  by code_simp

text \<open>
  C7. The claim is that \<open>_extract_batch_id\<close> never raises, whatever the shape of the
  entries of the document. The batch header is tested with \<open>isinstance\<close> before it is
  read, but the links are not: on a document whose \<open>links\<close> list holds a number, the
  call \<open>link.get\<close> raises an \<open>AttributeError\<close>, and a \<open>links\<close> entry that is a number
  raises a \<open>TypeError\<close> in the \<open>for\<close> statement.
\<close>

theorem extract_batch_id_raises:
  "extract_batch_id (JObj [(''links'', JArr [JInt 5])])
     = Inl (AttributeError ([CHR 0x27] @ ''int'' @ [CHR 0x27] @ '' object has no attribute ''
                            @ [CHR 0x27] @ ''get'' @ [CHR 0x27]))
   \<and> extract_batch_id (JObj [(''links'', JInt 5)])
     = Inl (TypeError ([CHR 0x27] @ ''int'' @ [CHR 0x27] @ '' object is not iterable''))"
  by code_simp

lemma str_contains_nonempty: "str_contains (a # as) s \<Longrightarrow> s \<noteq> []"
  by (cases s) auto

text \<open>On links of the expected shape the loop does not raise: it returns what follows
  the last slash of the first payouts link, or \<open>None\<close>.\<close>

lemma links_loop_ok:
  "list_all link_ok ls \<Longrightarrow>
   links_loop ls =
     Inr (case payout_hrefs ls of [] \<Rightarrow> JNull | s # _ \<Rightarrow> JStr (rsplit_last CHR ''/'' s))"
proof (induction ls)
  case Nil
  show ?case by (simp add: payout_hrefs_def)
next
  case (Cons link rest)
  then have ih: "links_loop rest =
     Inr (case payout_hrefs rest of [] \<Rightarrow> JNull | s # _ \<Rightarrow> JStr (rsplit_last CHR ''/'' s))"
    and ok: "link_ok link" by simp_all
  from ok obtain kvs where l: "link = JObj kvs"
    by (cases link) (simp_all add: link_ok_def)
  show ?case
  proof (cases "map_of kvs ''href''")
    case None
    with l ih show ?thesis by (simp add: payout_hrefs_def link_href_def)
  next
    case (Some v)
    with ok l have "v = JNull \<or> (\<exists>s. v = JStr s)"
      by (cases v) (simp_all add: link_ok_def)
    then show ?thesis
    proof
      assume "v = JNull"
      with l Some ih show ?thesis by (simp add: payout_hrefs_def link_href_def)
    next
      assume "\<exists>s. v = JStr s"
      then obtain s where v: "v = JStr s" ..
      show ?thesis
      proof (cases "str_contains ''/v1/payments/payouts/'' s")
        case True
        then have "s \<noteq> []" by (rule str_contains_nonempty)
        with True l Some v show ?thesis by (simp add: payout_hrefs_def link_href_def)
      next
        case False
        with l Some v ih show ?thesis by (simp add: payout_hrefs_def link_href_def)
      qed
    qed
  qed
qed

text \<open>
  With a batch header that is a dictionary whose identifier, under both names, is
  false, the function goes on to the links: its result is that of the fallback, which
  on links of the expected shape is what follows the last slash of the first payouts
  link, or \<open>None\<close>.
\<close>

lemma extract_batch_id_falls_through:
  assumes "batch_header_of (JObj doc) = Inr (JObj h)"
    and "\<not> truthy (header_id h)"
  shows "extract_batch_id (JObj doc) = links_fallback (JObj doc)"
  using assms by (simp add: extract_batch_id_def)

lemma links_fallback_ok:
  assumes "py_or (case map_of doc ''links'' of None \<Rightarrow> JArr [] | Some v \<Rightarrow> v) (JArr []) = JArr ls"
    and "list_all link_ok ls"
  shows "links_fallback (JObj doc) =
           Inr (case payout_hrefs ls of [] \<Rightarrow> JNull | s # _ \<Rightarrow> JStr (rsplit_last CHR ''/'' s))"
  using assms by (simp add: links_fallback_def links_loop_ok)

text \<open>
  C10. The claim is that, when the batch header is present and its identifier is false
  (the empty string, say), \<open>_extract_batch_id\<close> does not return that value and does not
  fail: it returns the identifier of the first link whose target holds the payouts path,
  and \<open>None\<close> when there is none. On links that are dictionaries the code does so: a link
  to another resource is passed over, the payouts link gives \<open>Z\<close>, and without a payouts
  link or without links the result is \<open>None\<close>. But the fallback reads each link with
  \<open>link.get\<close> unguarded, so on a document with the same batch header whose \<open>links\<close>
  list holds a number the call raises an \<open>AttributeError\<close>; the batch header is tested
  with \<open>isinstance\<close>, the links are not.
\<close>

theorem extract_batch_id_falsy_header_raises:
  "extract_batch_id
     (JObj [(''batch_header'', JObj [(''payout_batch_id'', JStr [])]),
            (''links'', JArr [JInt 5])])
     = Inl (AttributeError ([CHR 0x27] @ ''int'' @ [CHR 0x27] @ '' object has no attribute ''
                            @ [CHR 0x27] @ ''get'' @ [CHR 0x27]))
   \<and> extract_batch_id
       (JObj [(''batch_header'', JObj [(''payout_batch_id'', JStr [])]),
              (''links'', JArr [JObj [(''href'', JStr ''https://api-m.paypal.com/v1/other/Q'')],
                                JObj [(''href'', JStr ''.../v1/payments/payouts/Z'')]])])
     = Inr (JStr ''Z'')
   \<and> extract_batch_id
       (JObj [(''batch_header'', JObj [(''payout_batch_id'', JStr [])]),
              (''links'', JArr [JObj [(''href'', JStr ''https://api-m.paypal.com/v1/other/Q'')]])])
     = Inr JNull
   \<and> extract_batch_id (JObj [(''batch_header'', JObj [(''payout_batch_id'', JStr [])])])
     = Inr JNull"
  by code_simp

section \<open>Properties of \<open>get_access_token\<close>\<close>










section \<open>Properties of the route \<open>POST /payout\<close>\<close>

lemma get_access_token_calls:
  "get_access_token net cid csecret = (cs, res) \<Longrightarrow> cs = [Token_request cid csecret]"
  by (auto simp: get_access_token_def Let_def)

lemma submit_payout_invalid:
  "parse_amounts raw = Inl error \<Longrightarrow>
   submit_payout net r sess cid csecret email raw ccy subject message = route_failed sess [] error"
  by (simp add: submit_payout_def)

lemma submit_payout_valid_calls:
  assumes "parse_amounts raw = Inr amounts"
  shows "take 1 (calls (submit_payout net r sess cid csecret email raw ccy subject message))
           = [Token_request cid csecret]"
proof -
  obtain cs1 got where g: "get_access_token net cid csecret = (cs1, got)"
    by (cases "get_access_token net cid csecret")
  then have cs1: "cs1 = [Token_request cid csecret]" by (rule get_access_token_calls)
  show ?thesis
  proof (cases got)
    case (Inl e)
    with assms g cs1 show ?thesis by (simp add: submit_payout_def route_failed_def)
  next
    case (Inr token)
    obtain cs2 created where c:
      "create_payout net token (build_payout_body email amounts ccy subject message r) True = (cs2, created)"
      by (cases "create_payout net token (build_payout_body email amounts ccy subject message r) True")
    from assms g cs1 Inr c show ?thesis
      by (auto simp: submit_payout_def route_failed_def split: sum.splits)
  qed
qed

lemma create_payout_route_cases:
  "calls (create_payout_route net r environ sess form) = [] \<or>
   (\<exists>s1 cid csecret email ccy subject message.
      create_payout_route net r environ sess form =
        submit_payout net r s1 cid csecret email (str_strip (form_get form ''amounts'' []))
          ccy subject message)"
proof (cases "calls (create_payout_route net r environ sess form) = []")
  case True
  then show ?thesis by simp
next
  case False
  then have "create_payout_route net r environ sess form =
     submit_payout net r (store_credentials form sess)
       (case client_id_of environ (store_credentials form sess) of None \<Rightarrow> [] | Some v \<Rightarrow> v)
       (case client_secret_of environ (store_credentials form sess) of None \<Rightarrow> [] | Some v \<Rightarrow> v)
       (str_strip (form_get form ''email'' []))
       (str_strip (form_get form ''amounts'' []))
       (str_or (str_upper (str_strip (form_get form ''currency'' ''USD''))) ''USD'')
       (str_or (str_strip (form_get form ''subject'' ''You have money!'')) ''You have money!'')
       (str_or (str_strip (form_get form ''message''
                  ''You received a payment. Thanks for using our service!''))
          ''You received a payment. Thanks for using our service!'')"
    by (simp add: create_payout_route_def Let_def split: if_splits)
  then show ?thesis by blast
qed

text \<open>
  C9. When \<open>parse_amounts\<close> raises on the amounts of the form, the handler sends no
  remote request, neither the token exchange nor the payout submission, and redirects
  to the index; when the handler has got as far as the validation (credentials found
  and an e-mail given), the message it flashes is that of the validation error. For
  every request, if any remote request is sent then the validation has succeeded, and
  the first request sent is the token exchange.
\<close>

theorem validation_precedes_remote_calls:
  "(\<forall>error. parse_amounts (str_strip (form_get form ''amounts'' [])) = Inl error \<longrightarrow>
      calls (create_payout_route net r environ sess form) = []
      \<and> response (create_payout_route net r environ sess form) = Redirect_index
      \<and> (opt_truthy (client_id_of environ (store_credentials form sess))
           \<and> opt_truthy (client_secret_of environ (store_credentials form sess))
           \<and> str_strip (form_get form ''email'' []) \<noteq> [] \<longrightarrow>
         flashes (create_payout_route net r environ sess form) = [(py_str error, ''error'')]))
   \<and> (calls (create_payout_route net r environ sess form) \<noteq> [] \<longrightarrow>
        (\<exists>amounts. parse_amounts (str_strip (form_get form ''amounts'' [])) = Inr amounts)
        \<and> (\<exists>client_id client_secret.
              take 1 (calls (create_payout_route net r environ sess form))
                = [Token_request client_id client_secret]))"
proof -
  let ?raw = "str_strip (form_get form ''amounts'' [])"
  let ?R = "create_payout_route net r environ sess form"
  have a: "calls ?R = [] \<and> response ?R = Redirect_index
      \<and> (opt_truthy (client_id_of environ (store_credentials form sess))
           \<and> opt_truthy (client_secret_of environ (store_credentials form sess))
           \<and> str_strip (form_get form ''email'' []) \<noteq> [] \<longrightarrow>
         flashes ?R = [(py_str error, ''error'')])"
    if "parse_amounts ?raw = Inl error" for error
    using that by (simp add: create_payout_route_def Let_def submit_payout_invalid route_failed_def)
  have b: "\<exists>amounts. parse_amounts ?raw = Inr amounts" if "calls ?R \<noteq> []"
  proof (cases "parse_amounts ?raw")
    case (Inl error)
    from a [OF this] that show ?thesis by simp
  next
    case (Inr amounts)
    then show ?thesis by blast
  qed
  have c: "\<exists>client_id client_secret. take 1 (calls ?R) = [Token_request client_id client_secret]"
    if "calls ?R \<noteq> []"
  proof -
    from b [OF that] obtain amounts where p: "parse_amounts ?raw = Inr amounts" ..
    from create_payout_route_cases [of net r environ sess form] that
    obtain s1 cid csecret email ccy subject message
      where "?R = submit_payout net r s1 cid csecret email ?raw ccy subject message"
      by blast
    with submit_payout_valid_calls [OF p, of net r s1 cid csecret email ccy subject message]
    show ?thesis by auto
  qed
  from a b c show ?thesis by blast
qed

theorem validation_precedes_remote_calls_witness:
  "parse_amounts (str_strip (form_get [''email'' \<mapsto> ''a@b.com'', ''amounts'' \<mapsto> ''abc''] ''amounts'' []))
     = Inl (ValueError ''Invalid amount: abc'')
   \<and> calls (create_payout_route (always (Transport_error (URLError ''unreachable''))) 0
              [''PAYPAL_CLIENT_ID'' \<mapsto> ''id'', ''PAYPAL_CLIENT_SECRET'' \<mapsto> ''secret''] Map.empty
              [''email'' \<mapsto> ''a@b.com'', ''amounts'' \<mapsto> ''abc'']) = []
   \<and> flashes (create_payout_route (always (Transport_error (URLError ''unreachable''))) 0
              [''PAYPAL_CLIENT_ID'' \<mapsto> ''id'', ''PAYPAL_CLIENT_SECRET'' \<mapsto> ''secret''] Map.empty
              [''email'' \<mapsto> ''a@b.com'', ''amounts'' \<mapsto> ''abc''])
       = [(''Invalid amount: abc'', ''error'')]
   \<and> calls (create_payout_route (always (Transport_error (URLError ''unreachable''))) 0
              [''PAYPAL_CLIENT_ID'' \<mapsto> ''id'', ''PAYPAL_CLIENT_SECRET'' \<mapsto> ''secret''] Map.empty
              [''email'' \<mapsto> ''a@b.com'', ''amounts'' \<mapsto> ''5'']) = [Token_request ''id'' ''secret'']
   \<and> parse_amounts (str_strip (form_get [''email'' \<mapsto> ''a@b.com'', ''amounts'' \<mapsto> ''5''] ''amounts'' []))
     = Inr [''5.00'']"
proof -
  let ?net = "always (Transport_error (URLError ''unreachable''))"
  let ?env = "[''PAYPAL_CLIENT_ID'' \<mapsto> ''id'', ''PAYPAL_CLIENT_SECRET'' \<mapsto> ''secret'']"
  let ?bad = "[''email'' \<mapsto> ''a@b.com'', ''amounts'' \<mapsto> ''abc'']"
  let ?good = "[''email'' \<mapsto> ''a@b.com'', ''amounts'' \<mapsto> ''5'']"
  have p: "parse_amounts (str_strip (form_get ?bad ''amounts'' [])) = Inl (ValueError ''Invalid amount: abc'')"
    by code_simp
  have h: "opt_truthy (client_id_of ?env (store_credentials ?bad Map.empty))
           \<and> opt_truthy (client_secret_of ?env (store_credentials ?bad Map.empty))
           \<and> str_strip (form_get ?bad ''email'' []) \<noteq> []"
    by code_simp
  have c: "calls (create_payout_route ?net 0 ?env Map.empty ?good) = [Token_request ''id'' ''secret'']"
    by code_simp
  have q: "parse_amounts (str_strip (form_get ?good ''amounts'' [])) = Inr [''5.00'']"
    by code_simp
  from validation_precedes_remote_calls [of ?bad ?net 0 ?env Map.empty] p h
  have "calls (create_payout_route ?net 0 ?env Map.empty ?bad) = []
        \<and> flashes (create_payout_route ?net 0 ?env Map.empty ?bad)
            = [(py_str (ValueError ''Invalid amount: abc''), ''error'')]"
    by blast
  with p c q show ?thesis by simp
qed

end
